theory Spec2Isabelle
  imports Complex_Main "HOL-Library.Multiset"
begin

section \<open>The arbitrage scanner's client-side pipeline\<close>

text \<open>
  The development embeds three pieces of the dashboard source (\<^verbatim>\<open>src/unnamed/part_001\<close>):
  \<^item> \<^verbatim>\<open>WatchlistView\<close>: the arbitrage calculation over matched pairs, its filter,
    its ordering and the suspicious flag;
  \<^item> \<^verbatim>\<open>UnifiedMarketsTable\<close>: the deduplication of each venue's catalog and the
    one-pass matching of the two catalogs;
  \<^item> \<^verbatim>\<open>Dashboard.filteredOpportunities\<close>: the free-text search filter.

  A JavaScript \<^verbatim>\<open>number\<close> is modelled as a \<^typ>\<open>real\<close>; there is no NaN and no
  infinity. The arbitrage calculation is given twice: with exact arithmetic, and with the
  result of every arithmetic operation rounded as the runtime rounds it, where the
  outcome of a comparison depends on the rounding. A JavaScript string is modelled as a
  \<^typ>\<open>string\<close>. An optional or nullable field is an \<^typ>\<open>'a option\<close>.
\<close>

subsection \<open>JavaScript helpers\<close>

text \<open>\<^verbatim>\<open>x || ""\<close> on an optional string: null, undefined and the empty string give \<^verbatim>\<open>""\<close>.\<close>

fun orEmpty :: "string option \<Rightarrow> string" where
  "orEmpty None = []"
| "orEmpty (Some s) = s"

text \<open>\<^verbatim>\<open>x || y\<close> on an optional string \<open>x\<close>: the empty string is falsy too.\<close>

fun orElse :: "string option \<Rightarrow> string \<Rightarrow> string" where
  "orElse None d = d"
| "orElse (Some s) d = (if s = [] then d else s)"

text \<open>\<^verbatim>\<open>x || null\<close> on an optional string.\<close>

fun orNull :: "string option \<Rightarrow> string option" where
  "orNull None = None"
| "orNull (Some s) = (if s = [] then None else Some s)"

text \<open>\<^verbatim>\<open>s.startsWith(p)\<close>.\<close>

definition startsWith :: "'a list \<Rightarrow> 'a list \<Rightarrow> bool" where
  "startsWith s p = (take (length p) s = p)"

text \<open>\<^verbatim>\<open>s.includes(q)\<close>: \<open>q\<close> occurs in \<open>s\<close> as a contiguous run.\<close>

fun jsIncludes :: "'a list \<Rightarrow> 'a list \<Rightarrow> bool" where
  "jsIncludes [] q = (q = [])"
| "jsIncludes (c # cs) q = (startsWith (c # cs) q \<or> jsIncludes cs q)"

text \<open>
  \<^verbatim>\<open>Array.prototype.sort(cmp)\<close>: a stable sort; \<open>a\<close> stays before \<open>b\<close> unless
  \<open>cmp a b > 0\<close>. It is modelled as a stable insertion sort.
\<close>

fun insertBy :: "('a \<Rightarrow> 'a \<Rightarrow> real) \<Rightarrow> 'a \<Rightarrow> 'a list \<Rightarrow> 'a list" where
  "insertBy cmp x [] = [x]"
| "insertBy cmp x (y # ys) = (if cmp x y \<le> 0 then x # y # ys else y # insertBy cmp x ys)"

definition sortBy :: "('a \<Rightarrow> 'a \<Rightarrow> real) \<Rightarrow> 'a list \<Rightarrow> 'a list" where
  "sortBy cmp xs = foldr (insertBy cmp) xs []"

subsection \<open>WatchlistView: the arbitrage calculation\<close>

text \<open>The \<^verbatim>\<open>polymarket\<close> and \<^verbatim>\<open>kalshi\<close> objects of a \<^verbatim>\<open>MarketMatch\<close>.\<close>

record MatchVenue =
  mv_id :: string
  mv_name :: "string option"
  mv_yes_price :: real
  mv_no_price :: real
  mv_slug :: "string option"
  mv_url :: "string option"

record MarketMatch =
  mm_normalized_name :: string
  mm_game_date :: "string option"
  mm_sport :: "string option"
  mm_market_for_team :: "string option"
  mm_away_team :: "string option"
  mm_home_team :: "string option"
  mm_polymarket :: MatchVenue
  mm_kalshi :: MatchVenue
  mm_price_diff_yes :: real
  mm_price_diff_no :: "real option"

datatype Side = YES | NO

text \<open>
  The object built by the \<^verbatim>\<open>map\<close> callback: the match itself (the spread
  \<^verbatim>\<open>...match\<close>) and the fields computed from its four prices.
\<close>

record WatchOpp =
  wo_match :: MarketMatch
  strategy :: nat
  cost :: real
  profit :: real
  profitPercent :: real
  polyBuy :: Side
  polyPrice :: real
  kalshiBuy :: Side
  kalshiPrice :: real

definition calcOpportunity :: "MarketMatch \<Rightarrow> WatchOpp" where
  "calcOpportunity match =
     (let polyYes = mv_yes_price (mm_polymarket match);
          polyNo = mv_no_price (mm_polymarket match);
          kalshiYes = mv_yes_price (mm_kalshi match);
          kalshiNo = mv_no_price (mm_kalshi match);
          cost1 = polyYes + kalshiNo;
          profit1 = 1 - cost1;
          cost2 = polyNo + kalshiYes;
          profit2 = 1 - cost2;
          bestProfit = max profit1 profit2;
          strat = (if profit1 \<ge> profit2 then 1 else 2 :: nat)
      in \<lparr> wo_match = match,
           strategy = strat,
           cost = (if strat = 1 then cost1 else cost2),
           profit = bestProfit,
           profitPercent = bestProfit * 100,
           polyBuy = (if strat = 1 then YES else NO),
           polyPrice = (if strat = 1 then polyYes else polyNo),
           kalshiBuy = (if strat = 1 then NO else YES),
           kalshiPrice = (if strat = 1 then kalshiNo else kalshiYes) \<rparr>)"

text \<open>
  The same calculation in the runtime's arithmetic: a JavaScript number is an IEEE 754
  double, and each addition, subtraction and multiplication returns the exact result
  rounded to a double. The rounding is the parameter \<open>rnd\<close>; comparisons and
  \<^verbatim>\<open>Math.max\<close> are exact. With the identity for \<open>rnd\<close> this is
  \<^const>\<open>calcOpportunity\<close>.
\<close>

definition calcOpportunityRounded :: "(real \<Rightarrow> real) \<Rightarrow> MarketMatch \<Rightarrow> WatchOpp" where
  "calcOpportunityRounded rnd match =
     (let polyYes = mv_yes_price (mm_polymarket match);
          polyNo = mv_no_price (mm_polymarket match);
          kalshiYes = mv_yes_price (mm_kalshi match);
          kalshiNo = mv_no_price (mm_kalshi match);
          cost1 = rnd (polyYes + kalshiNo);
          profit1 = rnd (1 - cost1);
          cost2 = rnd (polyNo + kalshiYes);
          profit2 = rnd (1 - cost2);
          bestProfit = max profit1 profit2;
          strat = (if profit1 \<ge> profit2 then 1 else 2 :: nat)
      in \<lparr> wo_match = match,
           strategy = strat,
           cost = (if strat = 1 then cost1 else cost2),
           profit = bestProfit,
           profitPercent = rnd (bestProfit * 100),
           polyBuy = (if strat = 1 then YES else NO),
           polyPrice = (if strat = 1 then polyYes else polyNo),
           kalshiBuy = (if strat = 1 then NO else YES),
           kalshiPrice = (if strat = 1 then kalshiNo else kalshiYes) \<rparr>)"

text \<open>
  The rounding of IEEE 754 doubles, to nearest with ties to even, on the finite range
  (a result beyond the largest double is not modelled). A double is an integer multiple
  of the spacing \<open>ulp\<close> of its binade, with at most 53 bits. The spacing between 1
  and 2 is \<open>1 / 2 ^ 52\<close>; from there it is doubled (at most 1023 times) or halved (at
  most 1022 times, down to \<open>1 / 2 ^ 1074\<close>, the spacing of the subnormal numbers).
\<close>

definition roundEven :: "real \<Rightarrow> int" where
  "roundEven q =
     (let f = \<lfloor>q\<rfloor>; r = q - of_int f
      in if r < 1/2 then f else if r > 1/2 then f + 1 else if even f then f else f + 1)"

fun ulpUp :: "nat \<Rightarrow> real \<Rightarrow> real \<Rightarrow> real" where
  "ulpUp n x u =
     (if n = 0 then u else if \<bar>x\<bar> \<ge> 2 ^ 53 * u then ulpUp (n - 1) x (2 * u) else u)"

fun ulpDown :: "nat \<Rightarrow> real \<Rightarrow> real \<Rightarrow> real" where
  "ulpDown n x u =
     (if n = 0 then u else if \<bar>x\<bar> < 2 ^ 52 * u then ulpDown (n - 1) x (u / 2) else u)"

definition ulp :: "real \<Rightarrow> real" where
  "ulp x = (if \<bar>x\<bar> \<ge> 2 then ulpUp 1023 x (1 / 2 ^ 52) else ulpDown 1022 x (1 / 2 ^ 52))"

definition roundDouble :: "real \<Rightarrow> real" where
  "roundDouble x = (if x = 0 then 0 else of_int (roundEven (x / ulp x)) * ulp x)"

text \<open>\<^verbatim>\<open>matches.map(...).filter(opp => opp.profit > 0).sort((a, b) => b.profit - a.profit)\<close>\<close>

definition opportunities :: "MarketMatch list \<Rightarrow> WatchOpp list" where
  "opportunities matches =
     sortBy (\<lambda>a b. profit b - profit a)
       (filter (\<lambda>opp. profit opp > 0) (map calcOpportunity matches))"

definition isSuspicious :: "real \<Rightarrow> bool" where
  "isSuspicious p = (p > 15)"

text \<open>
  What the view renders for one opportunity: the row's red tint, the red profit figure
  and the warning banner are each switched by \<^verbatim>\<open>isSuspicious(opp.profitPercent)\<close>.
\<close>

record WatchRow =
  row_opp :: WatchOpp
  row_tinted :: bool
  row_profit_red :: bool
  row_warning :: bool

definition renderRow :: "WatchOpp \<Rightarrow> WatchRow" where
  "renderRow opp =
     \<lparr> row_opp = opp,
       row_tinted = isSuspicious (profitPercent opp),
       row_profit_red = isSuspicious (profitPercent opp),
       row_warning = isSuspicious (profitPercent opp) \<rparr>"

definition WatchlistView :: "MarketMatch list \<Rightarrow> WatchRow list" where
  "WatchlistView matches = map renderRow (opportunities matches)"

text \<open>A match that carries only its four prices; the other fields are left empty.\<close>

definition mkVenue :: "string \<Rightarrow> real \<Rightarrow> real \<Rightarrow> MatchVenue" where
  "mkVenue i y n =
     \<lparr> mv_id = i, mv_name = None, mv_yes_price = y, mv_no_price = n,
       mv_slug = None, mv_url = None \<rparr>"

definition mkMatch :: "string \<Rightarrow> real \<Rightarrow> real \<Rightarrow> real \<Rightarrow> real \<Rightarrow> real \<Rightarrow> MarketMatch" where
  "mkMatch nm polyYes polyNo kalshiYes kalshiNo diff =
     \<lparr> mm_normalized_name = nm, mm_game_date = None, mm_sport = None,
       mm_market_for_team = None, mm_away_team = None, mm_home_team = None,
       mm_polymarket = mkVenue ''p'' polyYes polyNo,
       mm_kalshi = mkVenue ''k'' kalshiYes kalshiNo,
       mm_price_diff_yes = diff, mm_price_diff_no = None \<rparr>"

text \<open>
  The spec's net profit, in its own words: the gross profit minus each venue's fee, each
  fee being that venue's rate applied to the gross profit.
\<close>

definition specNetProfit :: "real \<Rightarrow> real \<Rightarrow> real \<Rightarrow> real" where
  "specNetProfit feeA feeB gross = gross - feeA * gross - feeB * gross"

subsection \<open>UnifiedMarketsTable: deduplication and matching\<close>

record MarketItem =
  mi_id :: string
  mi_name :: string
  mi_normalized_name :: "string option"
  mi_away_team :: "string option"
  mi_home_team :: "string option"
  mi_game_date :: "string option"
  mi_sport :: "string option"
  mi_slug :: "string option"
  mi_series :: "string option"
  mi_yes_price :: real
  mi_no_price :: real
  mi_category :: string
  mi_market_type :: "string option"
  mi_end_date :: "string option"
  mi_expiration :: "string option"

datatype MarketTypeFilter = Moneyline | Spread | OverUnder | Props | AllTypes

definition matchesMarketType :: "MarketTypeFilter \<Rightarrow> MarketItem \<Rightarrow> bool" where
  "matchesMarketType marketTypeFilter market =
     (let marketType = orEmpty (mi_market_type market)
      in case marketTypeFilter of
           Moneyline \<Rightarrow> marketType = ''game_winner''
         | Spread \<Rightarrow> marketType = ''spread''
         | OverUnder \<Rightarrow> marketType = ''over_under''
         | Props \<Rightarrow> startsWith marketType ''player_prop''
         | AllTypes \<Rightarrow> True)"

text \<open>
  The key of both deduplication loops: the normalized name (the name when it is missing or
  empty), the game date, the sport and the market type, joined by dashes; a player-prop
  market appends the first 30 characters of its name.
\<close>

definition gameKey :: "MarketItem \<Rightarrow> string" where
  "gameKey m =
     (let propKey =
            (if (case mi_market_type m of None \<Rightarrow> False
                 | Some t \<Rightarrow> startsWith t ''player_prop'')
             then ''-'' @ take 30 (mi_name m) else [])
      in orElse (mi_normalized_name m) (mi_name m) @ ''-'' @ orEmpty (mi_game_date m) @ ''-'' @
         orEmpty (mi_sport m) @ ''-'' @ orEmpty (mi_market_type m) @ propKey)"

text \<open>
  The test \<^verbatim>\<open>market_type?.startsWith("player_prop")\<close> of the key, and the four parts
  the key joins. Two markets are of the same game, in the words of the spec, when they
  agree in the four parts; \<open>partsDiffering\<close> counts the parts in which two markets
  differ.
\<close>

definition isPlayerProp :: "MarketItem \<Rightarrow> bool" where
  "isPlayerProp m =
     (case mi_market_type m of None \<Rightarrow> False | Some t \<Rightarrow> startsWith t ''player_prop'')"

definition keyParts :: "MarketItem \<Rightarrow> string list" where
  "keyParts m =
     [orElse (mi_normalized_name m) (mi_name m), orEmpty (mi_game_date m),
      orEmpty (mi_sport m), orEmpty (mi_market_type m)]"

definition sameGame :: "MarketItem \<Rightarrow> MarketItem \<Rightarrow> bool" where
  "sameGame a b = (keyParts a = keyParts b)"

definition partsDiffering :: "MarketItem \<Rightarrow> MarketItem \<Rightarrow> nat" where
  "partsDiffering a c = length (filter (\<lambda>(x, y). x \<noteq> y) (zip (keyParts a) (keyParts c)))"

text \<open>
  A JavaScript \<^verbatim>\<open>Map\<close> keeps its entries in insertion order: an association list,
  where \<^verbatim>\<open>set\<close> on a new key appends and on an old key replaces in place.
\<close>

type_synonym 'v jsMap = "(string \<times> 'v) list"

definition mapHas :: "'v jsMap \<Rightarrow> string \<Rightarrow> bool" where
  "mapHas m k = (k \<in> fst ` set m)"

fun mapSet :: "'v jsMap \<Rightarrow> string \<Rightarrow> 'v \<Rightarrow> 'v jsMap" where
  "mapSet [] k v = [(k, v)]"
| "mapSet ((k', v') # m) k v = (if k' = k then (k, v) # m else (k', v') # mapSet m k v)"

definition mapValues :: "'v jsMap \<Rightarrow> 'v list" where
  "mapValues m = map snd m"

text \<open>One iteration of a deduplication loop, and the loop over the filtered catalog.\<close>

definition byGameStep :: "MarketItem \<Rightarrow> MarketItem jsMap \<Rightarrow> MarketItem jsMap" where
  "byGameStep m byGame =
     (let key = gameKey m in if \<not> mapHas byGame key then mapSet byGame key m else byGame)"

definition byGame :: "MarketItem list \<Rightarrow> MarketItem jsMap" where
  "byGame filtered = fold byGameStep filtered []"

text \<open>The two loops have the same body; \<open>polyByGame\<close> and \<open>kalshiByGame\<close> are \<^const>\<open>byGame\<close>.\<close>

definition dedupedPoly :: "MarketTypeFilter \<Rightarrow> MarketItem list \<Rightarrow> MarketItem list" where
  "dedupedPoly f polyMarkets = mapValues (byGame (filter (matchesMarketType f) polyMarkets))"

definition dedupedKalshi :: "MarketTypeFilter \<Rightarrow> MarketItem list \<Rightarrow> MarketItem list" where
  "dedupedKalshi f kalshiMarkets = mapValues (byGame (filter (matchesMarketType f) kalshiMarkets))"

record UnifiedMarket =
  um_key :: string
  um_normalizedName :: string
  um_sport :: "string option"
  um_gameDate :: "string option"
  um_polymarket :: "MarketItem option"
  um_kalshi :: "MarketItem option"

text \<open>\<^verbatim>\<open>polyKey\<close> and \<^verbatim>\<open>kKey\<close>: normalized name, game date and sport.\<close>

definition matchKey :: "MarketItem \<Rightarrow> string" where
  "matchKey m =
     orElse (mi_normalized_name m) (mi_name m) @ ''-'' @ orEmpty (mi_game_date m) @ ''-'' @
     orEmpty (mi_sport m)"

definition findMatchingKalshi :: "MarketItem list \<Rightarrow> string set \<Rightarrow> string \<Rightarrow> MarketItem option" where
  "findMatchingKalshi dk usedKalshiIds polyKey =
     find (\<lambda>k. matchKey k = polyKey \<and> mi_id k \<notin> usedKalshiIds) dk"

definition polyRow :: "MarketItem \<Rightarrow> MarketItem option \<Rightarrow> UnifiedMarket" where
  "polyRow poly matchingKalshi =
     \<lparr> um_key = matchKey poly,
       um_normalizedName = orElse (mi_normalized_name poly) (mi_name poly),
       um_sport = orNull (mi_sport poly),
       um_gameDate = orNull (mi_game_date poly),
       um_polymarket = Some poly,
       um_kalshi = matchingKalshi \<rparr>"

definition kalshiRow :: "MarketItem \<Rightarrow> UnifiedMarket" where
  "kalshiRow kalshi =
     \<lparr> um_key = ''kalshi-'' @ mi_id kalshi,
       um_normalizedName = orElse (mi_normalized_name kalshi) (mi_name kalshi),
       um_sport = orNull (mi_sport kalshi),
       um_gameDate = orNull (mi_game_date kalshi),
       um_polymarket = None,
       um_kalshi = Some kalshi \<rparr>"

definition markUsed :: "MarketItem option \<Rightarrow> string set \<Rightarrow> string set" where
  "markUsed matchingKalshi usedKalshiIds =
     (case matchingKalshi of None \<Rightarrow> usedKalshiIds
      | Some k \<Rightarrow> insert (mi_id k) usedKalshiIds)"

text \<open>
  The first loop, over the deduplicated Polymarket list; the state is the pair of
  \<^verbatim>\<open>unifiedMarkets\<close> and \<^verbatim>\<open>usedKalshiIds\<close>.
\<close>

fun matchLoop ::
  "MarketItem list \<Rightarrow> MarketItem list \<Rightarrow> UnifiedMarket list \<times> string set \<Rightarrow>
   UnifiedMarket list \<times> string set" where
  "matchLoop dk [] st = st"
| "matchLoop dk (poly # rest) (unifiedMarkets, usedKalshiIds) =
     (let matchingKalshi = findMatchingKalshi dk usedKalshiIds (matchKey poly)
      in matchLoop dk rest
           (unifiedMarkets @ [polyRow poly matchingKalshi],
            markUsed matchingKalshi usedKalshiIds))"

text \<open>The second loop: the Kalshi markets whose id was not used, in order.\<close>

fun remainingLoop :: "MarketItem list \<Rightarrow> UnifiedMarket list \<times> string set \<Rightarrow> UnifiedMarket list" where
  "remainingLoop [] (unifiedMarkets, usedKalshiIds) = unifiedMarkets"
| "remainingLoop (kalshi # rest) (unifiedMarkets, usedKalshiIds) =
     (if mi_id kalshi \<notin> usedKalshiIds
      then remainingLoop rest (unifiedMarkets @ [kalshiRow kalshi], usedKalshiIds)
      else remainingLoop rest (unifiedMarkets, usedKalshiIds))"

text \<open>
  The comparator of the final sort. \<^verbatim>\<open>String.prototype.localeCompare\<close> is the
  runtime's, so it is a parameter.
\<close>

definition compareRows :: "(string \<Rightarrow> string \<Rightarrow> real) \<Rightarrow> UnifiedMarket \<Rightarrow> UnifiedMarket \<Rightarrow> real" where
  "compareRows localeCompare a b =
     (if um_sport a \<noteq> um_sport b
      then localeCompare (orEmpty (um_sport a)) (orEmpty (um_sport b))
      else if um_gameDate a \<noteq> um_gameDate b
      then localeCompare (orEmpty (um_gameDate a)) (orEmpty (um_gameDate b))
      else localeCompare (um_normalizedName a) (um_normalizedName b))"

definition unifiedMarkets ::
  "(string \<Rightarrow> string \<Rightarrow> real) \<Rightarrow> MarketTypeFilter \<Rightarrow> MarketItem list \<Rightarrow> MarketItem list \<Rightarrow>
   UnifiedMarket list" where
  "unifiedMarkets localeCompare f polyMarkets kalshiMarkets =
     (let dp = dedupedPoly f polyMarkets;
          dk = dedupedKalshi f kalshiMarkets
      in sortBy (compareRows localeCompare) (remainingLoop dk (matchLoop dk dp ([], {}))))"

text \<open>The rows counted by \<^verbatim>\<open>matchedCount\<close>: the matched pairs.\<close>

definition matchedRows :: "UnifiedMarket list \<Rightarrow> UnifiedMarket list" where
  "matchedRows rows = filter (\<lambda>m. um_polymarket m \<noteq> None \<and> um_kalshi m \<noteq> None) rows"

text \<open>
  The same pass as a machine that runs one loop iteration per step. Its configurations
  are the four loops, each with what is left of the list it iterates over and the
  variables it updates, and the sorted result.
\<close>

datatype PassConfig =
    DedupPoly "MarketItem list" "MarketItem jsMap"
  | DedupKalshi "MarketItem list" "MarketItem list" "MarketItem jsMap"
  | Matching "MarketItem list" "MarketItem list" "UnifiedMarket list" "string set"
  | Remaining "MarketItem list" "UnifiedMarket list" "string set"
  | Sorted "UnifiedMarket list"

text \<open>
  In \<open>DedupKalshi dp rest m\<close>, \<open>dp\<close> is \<^verbatim>\<open>dedupedPoly\<close>; in
  \<open>Matching dk rest rows used\<close>, \<open>dk\<close> is \<^verbatim>\<open>dedupedKalshi\<close>.
\<close>

inductive passStep ::
  "(string \<Rightarrow> string \<Rightarrow> real) \<Rightarrow> MarketItem list \<Rightarrow> PassConfig \<Rightarrow> PassConfig \<Rightarrow> bool"
  for localeCompare :: "string \<Rightarrow> string \<Rightarrow> real" and kalshiFiltered :: "MarketItem list" where
  polyKeep:
    "\<not> mapHas polyByGame (gameKey poly) \<Longrightarrow>
     passStep localeCompare kalshiFiltered (DedupPoly (poly # rest) polyByGame)
       (DedupPoly rest (mapSet polyByGame (gameKey poly) poly))"
| polySkip:
    "mapHas polyByGame (gameKey poly) \<Longrightarrow>
     passStep localeCompare kalshiFiltered (DedupPoly (poly # rest) polyByGame)
       (DedupPoly rest polyByGame)"
| polyDone:
    "passStep localeCompare kalshiFiltered (DedupPoly [] polyByGame)
       (DedupKalshi (mapValues polyByGame) kalshiFiltered [])"
| kalshiKeep:
    "\<not> mapHas kalshiByGame (gameKey kalshi) \<Longrightarrow>
     passStep localeCompare kalshiFiltered (DedupKalshi dp (kalshi # rest) kalshiByGame)
       (DedupKalshi dp rest (mapSet kalshiByGame (gameKey kalshi) kalshi))"
| kalshiSkip:
    "mapHas kalshiByGame (gameKey kalshi) \<Longrightarrow>
     passStep localeCompare kalshiFiltered (DedupKalshi dp (kalshi # rest) kalshiByGame)
       (DedupKalshi dp rest kalshiByGame)"
| kalshiDone:
    "passStep localeCompare kalshiFiltered (DedupKalshi dp [] kalshiByGame)
       (Matching (mapValues kalshiByGame) dp [] {})"
| matchFound:
    "findMatchingKalshi dk used (matchKey poly) = Some k \<Longrightarrow>
     passStep localeCompare kalshiFiltered (Matching dk (poly # rest) rows used)
       (Matching dk rest (rows @ [polyRow poly (Some k)]) (insert (mi_id k) used))"
| matchNone:
    "findMatchingKalshi dk used (matchKey poly) = None \<Longrightarrow>
     passStep localeCompare kalshiFiltered (Matching dk (poly # rest) rows used)
       (Matching dk rest (rows @ [polyRow poly None]) used)"
| matchDone:
    "passStep localeCompare kalshiFiltered (Matching dk [] rows used) (Remaining dk rows used)"
| remainingPush:
    "mi_id kalshi \<notin> used \<Longrightarrow>
     passStep localeCompare kalshiFiltered (Remaining (kalshi # rest) rows used)
       (Remaining rest (rows @ [kalshiRow kalshi]) used)"
| remainingSkip:
    "mi_id kalshi \<in> used \<Longrightarrow>
     passStep localeCompare kalshiFiltered (Remaining (kalshi # rest) rows used)
       (Remaining rest rows used)"
| remainingDone:
    "passStep localeCompare kalshiFiltered (Remaining [] rows used)
       (Sorted (sortBy (compareRows localeCompare) rows))"

text \<open>A run of the pass on two catalogs ends in the rows it returns.\<close>

definition passRuns ::
  "(string \<Rightarrow> string \<Rightarrow> real) \<Rightarrow> MarketTypeFilter \<Rightarrow> MarketItem list \<Rightarrow> MarketItem list \<Rightarrow>
   UnifiedMarket list \<Rightarrow> bool" where
  "passRuns localeCompare f polyMarkets kalshiMarkets rows =
     (passStep localeCompare (filter (matchesMarketType f) kalshiMarkets))\<^sup>*\<^sup>*
        (DedupPoly (filter (matchesMarketType f) polyMarkets) []) (Sorted rows)"

text \<open>
  For the one-to-one property: the Kalshi id a row carries, and the state of the first
  loop in which the ids of the matched rows are pairwise different and all marked used.
\<close>

definition kalshiIdOf :: "UnifiedMarket \<Rightarrow> string option" where
  "kalshiIdOf r = map_option mi_id (um_kalshi r)"

definition idsClaimed :: "UnifiedMarket list \<times> string set \<Rightarrow> bool" where
  "idsClaimed st =
     (distinct (map kalshiIdOf (filter (\<lambda>r. um_kalshi r \<noteq> None) (fst st))) \<and>
      (\<forall>r \<in> set (fst st). \<forall>k. um_kalshi r = Some k \<longrightarrow> mi_id k \<in> snd st))"

subsection \<open>Dashboard: the search filter\<close>

text \<open>
  The \<^verbatim>\<open>polymarket\<close> and \<^verbatim>\<open>kalshi\<close> objects of an \<^verbatim>\<open>ArbitrageOpportunity\<close>;
  the optional market metrics are left out.
\<close>

record OppPolymarket =
  op_id :: string
  op_question :: string
  op_yes_price :: real
  op_no_price :: real
  op_url :: string
  op_end_date :: "string option"

record OppKalshi =
  ok_id :: string
  ok_question :: string
  ok_yes_price :: real
  ok_no_price :: real
  ok_url :: string
  ok_expected_expiration_time :: "string option"
  ok_close_time :: "string option"

record ArbitrageOpportunity =
  ao_polymarket :: OppPolymarket
  ao_kalshi :: OppKalshi
  ao_league :: "string option"
  ao_market_type :: string
  ao_team :: "string option"
  ao_price_difference :: real
  ao_price_difference_percent :: real
  ao_profit_bps :: real
  ao_buy_on :: string
  ao_sell_on :: string
  ao_match_score :: real
  ao_match_reason :: string

record Summary =
  sm_total :: real
  sm_by_league :: "(string \<times> real) list option"
  sm_avg_difference :: "real option"

record ApiResponse =
  ar_opportunities :: "ArbitrageOpportunity list"
  ar_summary :: Summary
  ar_last_updated :: "string option"

text \<open>
  \<^verbatim>\<open>x?.toLowerCase().includes(query)\<close>: undefined, so falsy, when \<open>x\<close> is missing.
  \<^verbatim>\<open>String.prototype.toLowerCase\<close> is the runtime's, so it is a parameter.
\<close>

definition optIncludes :: "(string \<Rightarrow> string) \<Rightarrow> string option \<Rightarrow> string \<Rightarrow> bool" where
  "optIncludes toLowerCase x query =
     (case x of None \<Rightarrow> False | Some s \<Rightarrow> jsIncludes (toLowerCase s) query)"

definition searchKeeps :: "(string \<Rightarrow> string) \<Rightarrow> string \<Rightarrow> ArbitrageOpportunity \<Rightarrow> bool" where
  "searchKeeps toLowerCase searchQuery opp =
     (if searchQuery = [] then True
      else let query = toLowerCase searchQuery
           in jsIncludes (toLowerCase (op_question (ao_polymarket opp))) query \<or>
              jsIncludes (toLowerCase (ok_question (ao_kalshi opp))) query \<or>
              jsIncludes (toLowerCase (ok_id (ao_kalshi opp))) query \<or>
              optIncludes toLowerCase (ao_league opp) query \<or>
              optIncludes toLowerCase (ao_team opp) query)"

definition filteredOpportunities ::
  "(string \<Rightarrow> string) \<Rightarrow> ApiResponse option \<Rightarrow> string \<Rightarrow> ArbitrageOpportunity list" where
  "filteredOpportunities toLowerCase data searchQuery =
     (case data of None \<Rightarrow> []
      | Some d \<Rightarrow> filter (searchKeeps toLowerCase searchQuery) (ar_opportunities d))"

text \<open>Lower-casing of the ASCII letters, for the concrete inputs below.\<close>

definition lowerChar :: "char \<Rightarrow> char" where
  "lowerChar c =
     (case map_of (zip ''ABCDEFGHIJKLMNOPQRSTUVWXYZ'' ''abcdefghijklmnopqrstuvwxyz'') c of
        None \<Rightarrow> c | Some l \<Rightarrow> l)"

definition asciiLower :: "string \<Rightarrow> string" where
  "asciiLower s = map lowerChar s"

text \<open>
  The spec's words for the search: the query occurs in a text, compared without regard to
  case.
\<close>

definition occursIn :: "'a list \<Rightarrow> 'a list \<Rightarrow> bool" where
  "occursIn q s = (\<exists>ps ss. s = ps @ q @ ss)"

definition ciOccurs :: "(string \<Rightarrow> string) \<Rightarrow> string \<Rightarrow> string \<Rightarrow> bool" where
  "ciOccurs toLowerCase q s = occursIn (toLowerCase q) (toLowerCase s)"

subsection \<open>Concrete inputs\<close>

text \<open>
  The spec's own example (\<open>yesA = 0.40\<close>, \<open>noB = 0.50\<close>); the pair of the spec's
  end-to-end scenario (\<open>0.42/0.58\<close> against \<open>0.55/0.45\<close>); a pair whose YES prices differ
  by five points while both strategies cost more than a dollar; a pair whose two
  strategies cost the same; and a pair with a 45\% gross profit.
\<close>

definition specExampleMatch :: MarketMatch where
  "specExampleMatch = mkMatch ''lakers vs celtics'' (40/100) (60/100) (50/100) (50/100) 10"


definition overroundMatch :: MarketMatch where
  "overroundMatch = mkMatch ''heat vs magic'' (55/100) (52/100) (50/100) (55/100) 5"

definition tieMatch :: MarketMatch where
  "tieMatch = mkMatch ''suns vs jazz'' (45/100) (50/100) (45/100) (50/100) 0"

definition flippedMatch :: MarketMatch where
  "flippedMatch = mkMatch ''bulls vs knicks'' (30/100) (70/100) (75/100) (25/100) 45"

text \<open>
  Matches whose prices are the doubles of decimal literals: one where the two computed
  costs are the same double (\<open>0.4 + 0.5\<close> and \<open>0.45 + 0.45\<close>), and one where the decimal
  sums are equal and the computed costs are not (\<open>0.05 + 0.93\<close> and \<open>0.91 + 0.07\<close>).
\<close>

definition mkDoubleMatch :: "string \<Rightarrow> real \<Rightarrow> real \<Rightarrow> real \<Rightarrow> real \<Rightarrow> MarketMatch" where
  "mkDoubleMatch nm polyYes polyNo kalshiYes kalshiNo =
     mkMatch nm (roundDouble polyYes) (roundDouble polyNo) (roundDouble kalshiYes)
       (roundDouble kalshiNo) 0"

definition doubleTieMatch :: MarketMatch where
  "doubleTieMatch = mkDoubleMatch ''suns vs jazz'' (40/100) (45/100) (45/100) (50/100)"

definition nearTieMatch :: MarketMatch where
  "nearTieMatch = mkDoubleMatch ''nets vs hawks'' (5/100) (91/100) (7/100) (93/100)"

definition mkItem ::
  "string \<Rightarrow> string \<Rightarrow> string option \<Rightarrow> string option \<Rightarrow> string option \<Rightarrow> string option \<Rightarrow>
   real \<Rightarrow> real \<Rightarrow> MarketItem" where
  "mkItem i nm nname date sport mtype y n =
     \<lparr> mi_id = i, mi_name = nm, mi_normalized_name = nname, mi_away_team = None,
       mi_home_team = None, mi_game_date = date, mi_sport = sport, mi_slug = None,
       mi_series = None, mi_yes_price = y, mi_no_price = n, mi_category = ''sports'',
       mi_market_type = mtype, mi_end_date = None, mi_expiration = None \<rparr>"

text \<open>
  The two Kalshi markets of one game, one per team, with inverted prices; the Polymarket
  market of that game; and the Kalshi market of the same teams' game two days later.
\<close>

definition kalshiLakers :: MarketItem where
  "kalshiLakers = mkItem ''KXNBAGAME-25DEC05BOSLAL-LAL'' ''Boston at Los Angeles L Winner?''
     (Some ''celtics at lakers'') (Some ''2025-12-05'') (Some ''nba'') (Some ''game_winner'')
     (60/100) (40/100)"

definition kalshiCeltics :: MarketItem where
  "kalshiCeltics = mkItem ''KXNBAGAME-25DEC05BOSLAL-BOS'' ''Boston at Los Angeles L Winner?''
     (Some ''celtics at lakers'') (Some ''2025-12-05'') (Some ''nba'') (Some ''game_winner'')
     (40/100) (60/100)"

definition polyLakers :: MarketItem where
  "polyLakers = mkItem ''0x51'' ''Celtics vs. Lakers''
     (Some ''celtics at lakers'') (Some ''2025-12-05'') (Some ''nba'') (Some ''game_winner'')
     (42/100) (58/100)"

definition kalshiRematch :: MarketItem where
  "kalshiRematch = mkItem ''KXNBAGAME-25DEC07BOSLAL-LAL'' ''Boston at Los Angeles L Winner?''
     (Some ''celtics at lakers'') (Some ''2025-12-07'') (Some ''nba'') (Some ''game_winner'')
     (55/100) (45/100)"

text \<open>Two opportunities as the API returns them, and a response that carries a list.\<close>

definition mkOpp ::
  "string \<Rightarrow> string \<Rightarrow> string \<Rightarrow> string option \<Rightarrow> string option \<Rightarrow> ArbitrageOpportunity" where
  "mkOpp polyQuestion kalshiQuestion kalshiId league team =
     \<lparr> ao_polymarket =
         \<lparr> op_id = ''0x51'', op_question = polyQuestion, op_yes_price = 42/100,
           op_no_price = 58/100, op_url = ''https://polymarket.com/event/nba-bos-lal'',
           op_end_date = None \<rparr>,
       ao_kalshi =
         \<lparr> ok_id = kalshiId, ok_question = kalshiQuestion, ok_yes_price = 55/100,
           ok_no_price = 45/100, ok_url = ''https://kalshi.com/markets/kxnbagame'',
           ok_expected_expiration_time = None, ok_close_time = None \<rparr>,
       ao_league = league, ao_market_type = ''game_winner'', ao_team = team,
       ao_price_difference = 13/100, ao_price_difference_percent = 13,
       ao_profit_bps = 1261, ao_buy_on = ''polymarket'', ao_sell_on = ''kalshi'',
       ao_match_score = 9/10, ao_match_reason = ''team+date exact match'' \<rparr>"

definition lakersOpp :: ArbitrageOpportunity where
  "lakersOpp = mkOpp ''Lakers vs Celtics'' ''Celtics at Lakers'' ''KXNBAGAME-25DEC05BOSLAL''
     (Some ''NBA'') None"

definition bullsOpp :: ArbitrageOpportunity where
  "bullsOpp = mkOpp ''Bulls vs Knicks'' ''Knicks at Bulls'' ''NBA-25DEC06NYKCHI''
     (Some ''NBA'') (Some ''Bulls'')"

definition mkResponse :: "ArbitrageOpportunity list \<Rightarrow> ApiResponse" where
  "mkResponse opps =
     \<lparr> ar_opportunities = opps,
       ar_summary =
         \<lparr> sm_total = real (length opps), sm_by_league = None, sm_avg_difference = None \<rparr>,
       ar_last_updated = None \<rparr>"

section \<open>Properties\<close>

subsection \<open>WatchlistView\<close>



lemma set_insertBy: "set (insertBy cmp x ys) = insert x (set ys)"
  by (induction ys) auto

lemma set_sortBy: "set (sortBy cmp xs) = set xs"
  by (induction xs) (simp_all add: sortBy_def set_insertBy)

lemma calcOpportunity_inj: "calcOpportunity m = calcOpportunity m' \<Longrightarrow> m = m'"
proof -
  assume "calcOpportunity m = calcOpportunity m'"
  then have "wo_match (calcOpportunity m) = wo_match (calcOpportunity m')" by simp
  then show ?thesis by (simp add: calcOpportunity_def Let_def)
qed

lemma sorted_insertBy_profit:
  "sorted_wrt (\<lambda>a b. profit b \<le> profit a) ys \<Longrightarrow>
   sorted_wrt (\<lambda>a b. profit b \<le> profit a) (insertBy (\<lambda>a b. profit b - profit a) x ys)"
  by (induction ys) (auto simp: set_insertBy)

lemma sorted_sortBy_profit:
  "sorted_wrt (\<lambda>a b. profit b \<le> profit a) (sortBy (\<lambda>a b. profit b - profit a) xs)"
  by (induction xs) (simp_all add: sortBy_def sorted_insertBy_profit)

text \<open>
  C1 (amended). The profit the watchlist reports for a matched pair is the gross profit,
  \<open>1.0\<close> minus the combined cost of the chosen strategy, with no venue fee deducted; the
  percentage it reports is that profit times 100. The watchlist computes no
  \<^verbatim>\<open>profit_bps\<close>.
\<close>

theorem profit_is_gross:
  "profit (calcOpportunity match) = 1 - cost (calcOpportunity match) \<and>
   profitPercent (calcOpportunity match) = profit (calcOpportunity match) * 100"
  by (simp add: calcOpportunity_def Let_def max_def)

text \<open>
  C1 as stated fails on the spec's example with fees of 2\% and 1\%: the reported profit
  is \<open>0.10\<close>, the net profit would be \<open>0.097\<close>, and the reported percentage is \<open>10\<close>,
  not the \<open>970\<close> basis points of the net profit.
\<close>

theorem profit_is_not_net_counterexample:
  "profit (calcOpportunity specExampleMatch) = 10/100 \<and>
   specNetProfit (2/100) (1/100) (1 - cost (calcOpportunity specExampleMatch)) = 97/1000 \<and>
   profit (calcOpportunity specExampleMatch) \<noteq>
     specNetProfit (2/100) (1/100) (1 - cost (calcOpportunity specExampleMatch)) \<and>
   profitPercent (calcOpportunity specExampleMatch) = 10 \<and>
   profitPercent (calcOpportunity specExampleMatch) \<noteq>
     specNetProfit (2/100) (1/100) (1 - cost (calcOpportunity specExampleMatch)) * 10000"
  by (simp add: calcOpportunity_def Let_def max_def specExampleMatch_def mkMatch_def
      mkVenue_def specNetProfit_def)

text \<open>
  C3 (amended). The opportunity computed for a matched pair is kept in the watchlist
  exactly when its profit is strictly positive: the watchlist applies no
  minimum-difference threshold, and an opportunity that is not profitable is dropped.
\<close>

theorem opportunities_profitable_only:
  "calcOpportunity m \<in> set (opportunities matches) \<longleftrightarrow>
     m \<in> set matches \<and> profit (calcOpportunity m) > 0"
  by (auto simp: opportunities_def set_sortBy dest: calcOpportunity_inj)

text \<open>
  C3 as stated fails on a pair whose price difference is 5\%, above the default threshold
  of 2\%, and whose profit is negative: nothing is surfaced for it.
\<close>

theorem unprofitable_dropped_counterexample:
  "mm_price_diff_yes overroundMatch \<ge> 2 \<and>
   \<bar>mv_yes_price (mm_polymarket overroundMatch) - mv_yes_price (mm_kalshi overroundMatch)\<bar> * 100 \<ge> 2 \<and>
   profit (calcOpportunity overroundMatch) = - (2/100) \<and>
   opportunities [overroundMatch] = [] \<and>
   WatchlistView [overroundMatch] = []"
  by (simp add: WatchlistView_def opportunities_def sortBy_def calcOpportunity_def Let_def
      max_def overroundMatch_def mkMatch_def mkVenue_def)

text \<open>
  C6. The opportunities of the watchlist are in descending order of profit: every entry
  has a profit at least that of every later entry, and in particular of the next one.
\<close>

theorem opportunities_sorted_desc:
  "sorted_wrt (\<lambda>a b. profit a \<ge> profit b) (opportunities matches) \<and>
   (\<forall>i. Suc i < length (opportunities matches) \<longrightarrow>
      profit (opportunities matches ! i) \<ge> profit (opportunities matches ! Suc i))"
proof -
  have s: "sorted_wrt (\<lambda>a b. profit a \<ge> profit b) (opportunities matches)"
    unfolding opportunities_def by (rule sorted_sortBy_profit)
  then show ?thesis by (auto simp: sorted_wrt_iff_nth_less)
qed

theorem opportunities_sorted_desc_witness:
  "sorted_wrt (\<lambda>a b. profit a \<ge> profit b)
     (opportunities [specExampleMatch, overroundMatch, flippedMatch, tieMatch]) \<and>
   map profit (opportunities [specExampleMatch, overroundMatch, flippedMatch, tieMatch]) =
     [45/100, 10/100, 5/100]"
  using opportunities_sorted_desc [of "[specExampleMatch, overroundMatch, flippedMatch, tieMatch]"]
  by (simp add: opportunities_def sortBy_def calcOpportunity_def Let_def max_def
      flippedMatch_def overroundMatch_def specExampleMatch_def tieMatch_def mkMatch_def
      mkVenue_def)

text \<open>
  C7. An opportunity computed from a matched pair whose profit percentage exceeds 15 is
  not discarded: its row is in the rendered watchlist, and the row carries the
  suspicious marks (tint, red profit figure, warning).
\<close>

theorem suspicious_kept_and_flagged:
  "m \<in> set matches \<Longrightarrow> profitPercent (calcOpportunity m) > 15 \<Longrightarrow>
   renderRow (calcOpportunity m) \<in> set (WatchlistView matches) \<and>
   row_opp (renderRow (calcOpportunity m)) = calcOpportunity m \<and>
   row_tinted (renderRow (calcOpportunity m)) \<and>
   row_profit_red (renderRow (calcOpportunity m)) \<and>
   row_warning (renderRow (calcOpportunity m))"
proof -
  assume m: "m \<in> set matches" and p: "profitPercent (calcOpportunity m) > 15"
  have "profitPercent (calcOpportunity m) = profit (calcOpportunity m) * 100"
    by (simp add: calcOpportunity_def Let_def)
  with p have "profit (calcOpportunity m) > 0" by simp
  with m have "calcOpportunity m \<in> set (opportunities matches)"
    by (auto simp: opportunities_def set_sortBy)
  then have "renderRow (calcOpportunity m) \<in> set (WatchlistView matches)"
    by (simp add: WatchlistView_def)
  with p show ?thesis by (simp add: renderRow_def isSuspicious_def)
qed

theorem suspicious_kept_and_flagged_witness:
  "flippedMatch \<in> set [overroundMatch, flippedMatch] \<and>
   profitPercent (calcOpportunity flippedMatch) = 45 \<and>
   WatchlistView [overroundMatch, flippedMatch] = [renderRow (calcOpportunity flippedMatch)] \<and>
   row_warning (renderRow (calcOpportunity flippedMatch))"
proof -
  have m: "flippedMatch \<in> set [overroundMatch, flippedMatch]" by simp
  have p: "profitPercent (calcOpportunity flippedMatch) = 45"
    by (simp add: calcOpportunity_def Let_def max_def flippedMatch_def mkMatch_def mkVenue_def)
  then have p': "profitPercent (calcOpportunity flippedMatch) > 15" by simp
  have v: "WatchlistView [overroundMatch, flippedMatch] = [renderRow (calcOpportunity flippedMatch)]"
    by (simp add: WatchlistView_def opportunities_def sortBy_def calcOpportunity_def Let_def
        max_def flippedMatch_def overroundMatch_def mkMatch_def mkVenue_def)
  from suspicious_kept_and_flagged [OF m p'] m p v show ?thesis by simp
qed

lemmas double_defs = roundDouble_def ulp_def roundEven_def Let_def

lemmas doubleMatch_defs =
  doubleTieMatch_def nearTieMatch_def mkDoubleMatch_def mkMatch_def mkVenue_def

lemma calcOpportunityRounded_exact: "calcOpportunityRounded (\<lambda>x. x) match = calcOpportunity match"
  by (simp add: calcOpportunityRounded_def calcOpportunity_def)

lemma double_prices:
  "roundDouble (2/5) = 3602879701896397 / 2 ^ 53"
  "roundDouble (9/20) = 8106479329266893 / 2 ^ 54"
  "roundDouble (1/2) = 1 / 2"
  "roundDouble (1/20) = 3602879701896397 / 2 ^ 56"
  "roundDouble (91/100) = 8196551321814303 / 2 ^ 53"
  "roundDouble (7/100) = 1261007895663739 / 2 ^ 54"
  "roundDouble (93/100) = 8376695306909123 / 2 ^ 53"
  by (simp_all add: double_defs)

lemma calcOpportunityRounded_fields:
  assumes "rnd (mv_yes_price (mm_polymarket match) + mv_no_price (mm_kalshi match)) = c1"
    and "rnd (mv_no_price (mm_polymarket match) + mv_yes_price (mm_kalshi match)) = c2"
    and "rnd (1 - c1) = p1" and "rnd (1 - c2) = p2"
  shows "strategy (calcOpportunityRounded rnd match) = (if p1 \<ge> p2 then 1 else 2)"
    and "cost (calcOpportunityRounded rnd match) = (if p1 \<ge> p2 then c1 else c2)"
    and "profit (calcOpportunityRounded rnd match) = max p1 p2"
    and "polyBuy (calcOpportunityRounded rnd match) = (if p1 \<ge> p2 then YES else NO)"
    and "kalshiBuy (calcOpportunityRounded rnd match) = (if p1 \<ge> p2 then NO else YES)"
  using assms by (simp_all add: calcOpportunityRounded_def Let_def)

lemma doubleTie_costs:
  "roundDouble (mv_yes_price (mm_polymarket doubleTieMatch) + mv_no_price (mm_kalshi doubleTieMatch)) =
     8106479329266893 / 2 ^ 53"
  "roundDouble (mv_no_price (mm_polymarket doubleTieMatch) + mv_yes_price (mm_kalshi doubleTieMatch)) =
     8106479329266893 / 2 ^ 53"
  by (simp_all add: doubleMatch_defs double_prices) (simp_all add: double_defs)

lemma nearTie_costs:
  "roundDouble (mv_yes_price (mm_polymarket nearTieMatch) + mv_no_price (mm_kalshi nearTieMatch)) =
     8827055269646173 / 2 ^ 53"
  "roundDouble (mv_no_price (mm_polymarket nearTieMatch) + mv_yes_price (mm_kalshi nearTieMatch)) =
     2206763817411543 / 2 ^ 51"
  by (simp_all add: doubleMatch_defs double_prices) (simp_all add: double_defs)

lemma nearTie_profits:
  "roundDouble (1 - 8827055269646173 / 2 ^ 53) = 180143985094819 / 2 ^ 53"
  "roundDouble (1 - 2206763817411543 / 2 ^ 51) = 45035996273705 / 2 ^ 51"
  by (simp_all add: double_defs)

text \<open>
  C10. When the two strategies yield exactly equal profit, that is, when the two costs
  the calculation computes are equal or the two profits it computes are, it selects
  Strategy 1: buy YES on Polymarket and NO on Kalshi, at the cost and leg prices of
  Strategy 1. This holds whatever the rounding of the arithmetic is.
\<close>

theorem tie_selects_strategy_1:
  "rnd (mv_yes_price (mm_polymarket match) + mv_no_price (mm_kalshi match)) =
     rnd (mv_no_price (mm_polymarket match) + mv_yes_price (mm_kalshi match)) \<or>
   rnd (1 - rnd (mv_yes_price (mm_polymarket match) + mv_no_price (mm_kalshi match))) =
     rnd (1 - rnd (mv_no_price (mm_polymarket match) + mv_yes_price (mm_kalshi match))) \<Longrightarrow>
   strategy (calcOpportunityRounded rnd match) = 1 \<and>
   polyBuy (calcOpportunityRounded rnd match) = YES \<and>
   kalshiBuy (calcOpportunityRounded rnd match) = NO \<and>
   cost (calcOpportunityRounded rnd match) =
     rnd (mv_yes_price (mm_polymarket match) + mv_no_price (mm_kalshi match)) \<and>
   polyPrice (calcOpportunityRounded rnd match) = mv_yes_price (mm_polymarket match) \<and>
   kalshiPrice (calcOpportunityRounded rnd match) = mv_no_price (mm_kalshi match)"
proof -
  let ?c1 = "rnd (mv_yes_price (mm_polymarket match) + mv_no_price (mm_kalshi match))"
  let ?c2 = "rnd (mv_no_price (mm_polymarket match) + mv_yes_price (mm_kalshi match))"
  assume "?c1 = ?c2 \<or> rnd (1 - ?c1) = rnd (1 - ?c2)"
  then have "rnd (1 - ?c1) = rnd (1 - ?c2)" by auto
  then show ?thesis by (simp add: calcOpportunityRounded_def Let_def)
qed

text \<open>
  In double arithmetic \<open>0.4 + 0.5\<close> and \<open>0.45 + 0.45\<close> are the same double, and
  Strategy 1 is selected.
\<close>

theorem tie_selects_strategy_1_witness:
  "roundDouble (mv_yes_price (mm_polymarket doubleTieMatch) + mv_no_price (mm_kalshi doubleTieMatch)) =
     roundDouble (mv_no_price (mm_polymarket doubleTieMatch) + mv_yes_price (mm_kalshi doubleTieMatch)) \<and>
   mv_yes_price (mm_polymarket doubleTieMatch) \<noteq> mv_no_price (mm_polymarket doubleTieMatch) \<and>
   mv_yes_price (mm_polymarket doubleTieMatch) \<noteq> mv_yes_price (mm_kalshi doubleTieMatch) \<and>
   strategy (calcOpportunityRounded roundDouble doubleTieMatch) = 1 \<and>
   polyBuy (calcOpportunityRounded roundDouble doubleTieMatch) = YES \<and>
   kalshiBuy (calcOpportunityRounded roundDouble doubleTieMatch) = NO \<and>
   cost (calcOpportunityRounded roundDouble doubleTieMatch) = 8106479329266893 / 2 ^ 53"
proof -
  have h: "roundDouble (mv_yes_price (mm_polymarket doubleTieMatch) + mv_no_price (mm_kalshi doubleTieMatch)) =
     roundDouble (mv_no_price (mm_polymarket doubleTieMatch) + mv_yes_price (mm_kalshi doubleTieMatch))"
    by (simp only: doubleTie_costs)
  have p: "mv_yes_price (mm_polymarket doubleTieMatch) \<noteq> mv_no_price (mm_polymarket doubleTieMatch) \<and>
     mv_yes_price (mm_polymarket doubleTieMatch) \<noteq> mv_yes_price (mm_kalshi doubleTieMatch)"
    by (simp add: doubleMatch_defs double_prices)
  from tie_selects_strategy_1 [of roundDouble doubleTieMatch] h p doubleTie_costs(1)
  show ?thesis by simp
qed

text \<open>
  The decimal sums \<open>0.05 + 0.93\<close> and \<open>0.91 + 0.07\<close> are equal, but the doubles the
  calculation computes are not: the first cost is the larger one, there is no tie, and
  Strategy 2 is selected.
\<close>

lemma near_tie_selects_strategy_2:
  "5/100 + 93/100 = (91/100 + 7/100 :: real) \<and>
   roundDouble (mv_yes_price (mm_polymarket nearTieMatch) + mv_no_price (mm_kalshi nearTieMatch)) >
     roundDouble (mv_no_price (mm_polymarket nearTieMatch) + mv_yes_price (mm_kalshi nearTieMatch)) \<and>
   strategy (calcOpportunityRounded roundDouble nearTieMatch) = 2 \<and>
   polyBuy (calcOpportunityRounded roundDouble nearTieMatch) = NO \<and>
   kalshiBuy (calcOpportunityRounded roundDouble nearTieMatch) = YES \<and>
   cost (calcOpportunityRounded roundDouble nearTieMatch) = 2206763817411543 / 2 ^ 51"
  using calcOpportunityRounded_fields [OF nearTie_costs nearTie_profits]
  by (simp add: nearTie_costs)

lemma roundDouble_examples:
  "roundDouble (1/10) + roundDouble (2/10) \<noteq> roundDouble (3/10) \<and>
   roundDouble (roundDouble (1/10) + roundDouble (2/10)) = 5404319552844596 / 2 ^ 54 \<and>
   roundDouble (1/2) = 1/2 \<and> roundDouble 3 = 3 \<and> roundDouble (-(1/10)) = - roundDouble (1/10)"
  by (simp add: double_defs)

subsection \<open>UnifiedMarketsTable: deduplication\<close>

lemma mapSet_fresh: "\<not> mapHas m k \<Longrightarrow> mapSet m k v = m @ [(k, v)]"
  by (induction m) (auto simp: mapHas_def)

lemma byGameStep_eq:
  "byGameStep m acc = (if gameKey m \<in> fst ` set acc then acc else acc @ [(gameKey m, m)])"
  using mapSet_fresh [of acc "gameKey m" m] by (simp add: byGameStep_def Let_def mapHas_def)

lemma fold_byGameStep_filter:
  "filter (\<lambda>x. gameKey x = k) (map snd (fold byGameStep ms acc)) =
   filter (\<lambda>x. gameKey x = k) (map snd acc) @
   (if k \<in> fst ` set acc then []
    else case find (\<lambda>x. gameKey x = k) ms of None \<Rightarrow> [] | Some m \<Rightarrow> [m])"
proof (induction ms arbitrary: acc)
  case Nil
  then show ?case by simp
next
  case (Cons m ms)
  show ?case
  proof (cases "gameKey m \<in> fst ` set acc")
    case True
    then show ?thesis using Cons [of acc] by (auto simp: byGameStep_eq)
  next
    case False
    then show ?thesis using Cons [of "acc @ [(gameKey m, m)]"] by (auto simp: byGameStep_eq)
  qed
qed

lemma byGame_filter:
  "filter (\<lambda>x. gameKey x = k) (mapValues (byGame ms)) =
   (case find (\<lambda>x. gameKey x = k) ms of None \<Rightarrow> [] | Some m \<Rightarrow> [m])"
  using fold_byGameStep_filter [of k ms "[]"] by (simp add: byGame_def mapValues_def)

lemmas item_defs =
  mkItem_def kalshiLakers_def kalshiCeltics_def polyLakers_def kalshiRematch_def

lemmas dedup_defs =
  dedupedPoly_def dedupedKalshi_def byGame_def byGameStep_def mapHas_def mapValues_def
  matchesMarketType_def gameKey_def startsWith_def

lemmas part_defs = keyParts_def sameGame_def partsDiffering_def isPlayerProp_def

lemma gameKey_parts:
  "gameKey m =
     keyParts m ! 0 @ ''-'' @ keyParts m ! 1 @ ''-'' @ keyParts m ! 2 @ ''-'' @ keyParts m ! 3 @
     (if isPlayerProp m then ''-'' @ take 30 (mi_name m) else [])"
  by (simp add: gameKey_def keyParts_def isPlayerProp_def Let_def)

lemma sameGame_gameKey:
  "sameGame a b \<Longrightarrow> (isPlayerProp a \<longrightarrow> take 30 (mi_name a) = take 30 (mi_name b)) \<Longrightarrow>
   gameKey a = gameKey b"
proof -
  assume s: "sameGame a b" and n: "isPlayerProp a \<longrightarrow> take 30 (mi_name a) = take 30 (mi_name b)"
  from s have "orEmpty (mi_market_type a) = orEmpty (mi_market_type b)"
    by (simp add: sameGame_def keyParts_def)
  then have "isPlayerProp a = isPlayerProp b"
    by (cases "mi_market_type a"; cases "mi_market_type b")
       (auto simp: isPlayerProp_def startsWith_def)
  with s n show ?thesis by (simp add: gameKey_parts sameGame_def)
qed

lemma one_part_gameKey:
  "\<not> isPlayerProp a \<Longrightarrow> \<not> isPlayerProp c \<Longrightarrow> partsDiffering a c = 1 \<Longrightarrow> gameKey a \<noteq> gameKey c"
  by (auto simp: gameKey_parts partsDiffering_def keyParts_def split: if_splits)

lemma prop_name_gameKey:
  "isPlayerProp a \<Longrightarrow> isPlayerProp c \<Longrightarrow> sameGame a c \<Longrightarrow>
   take 30 (mi_name a) \<noteq> take 30 (mi_name c) \<Longrightarrow> gameKey a \<noteq> gameKey c"
  by (simp add: gameKey_parts sameGame_def)

lemma dedupedKalshi_pair:
  "matchesMarketType f a \<Longrightarrow> matchesMarketType f c \<Longrightarrow>
   dedupedKalshi f [a, c] = (if gameKey a = gameKey c then [a] else [a, c])"
  by (simp add: dedupedKalshi_def byGame_def byGameStep_def mapHas_def mapValues_def)

text \<open>
  C4. Given two Kalshi markets of the same game (the same normalized name, game date,
  sport and market type; for player props also the same player, by the first 30
  characters of the name) that pass the market-type filter, exactly one survives
  deduplication, and it is the first one seen in input order: of the two alone the
  first is kept, and in any catalog that holds both, one market with their key
  survives, the first one seen with it. The key is made of these parts and no others:
  two markets that differ in exactly one part, or two player props of different
  players, are both kept.
\<close>

theorem kalshi_pair_keeps_first:
  "matchesMarketType f a \<Longrightarrow> matchesMarketType f b \<Longrightarrow> sameGame a b \<Longrightarrow>
   (isPlayerProp a \<longrightarrow> take 30 (mi_name a) = take 30 (mi_name b)) \<Longrightarrow>
   dedupedKalshi f [a, b] = [a] \<and>
   (\<forall>ms. a \<in> set ms \<longrightarrow> b \<in> set ms \<longrightarrow>
      (\<exists>m. find (\<lambda>x. gameKey x = gameKey a) (filter (matchesMarketType f) ms) = Some m \<and>
           filter (\<lambda>x. gameKey x = gameKey a \<or> gameKey x = gameKey b) (dedupedKalshi f ms) = [m])) \<and>
   (\<forall>c. matchesMarketType f c \<longrightarrow> \<not> isPlayerProp a \<longrightarrow> \<not> isPlayerProp c \<longrightarrow>
      partsDiffering a c = 1 \<longrightarrow> dedupedKalshi f [a, c] = [a, c]) \<and>
   (\<forall>c. matchesMarketType f c \<longrightarrow> isPlayerProp a \<longrightarrow> isPlayerProp c \<longrightarrow> sameGame a c \<longrightarrow>
      take 30 (mi_name a) \<noteq> take 30 (mi_name c) \<longrightarrow> dedupedKalshi f [a, c] = [a, c])"
proof -
  assume fa: "matchesMarketType f a" and fb: "matchesMarketType f b"
    and s: "sameGame a b"
    and n: "isPlayerProp a \<longrightarrow> take 30 (mi_name a) = take 30 (mi_name b)"
  from s n have k: "gameKey a = gameKey b" by (rule sameGame_gameKey)
  from fa fb k have 1: "dedupedKalshi f [a, b] = [a]" by (simp add: dedupedKalshi_pair)
  have 2: "\<exists>m. find (\<lambda>x. gameKey x = gameKey a) (filter (matchesMarketType f) ms) = Some m \<and>
      filter (\<lambda>x. gameKey x = gameKey a \<or> gameKey x = gameKey b) (dedupedKalshi f ms) = [m]"
    if "a \<in> set ms" for ms
  proof -
    from that fa have "a \<in> set (filter (matchesMarketType f) ms)" by simp
    then obtain m where m: "find (\<lambda>x. gameKey x = gameKey a) (filter (matchesMarketType f) ms) = Some m"
      by (cases "find (\<lambda>x. gameKey x = gameKey a) (filter (matchesMarketType f) ms)")
         (auto simp: find_None_iff)
    with byGame_filter [of "gameKey a" "filter (matchesMarketType f) ms"] k
    show ?thesis by (simp add: dedupedKalshi_def)
  qed
  have 3: "dedupedKalshi f [a, c] = [a, c]"
    if "matchesMarketType f c" "\<not> isPlayerProp a" "\<not> isPlayerProp c" "partsDiffering a c = 1" for c
    using that fa one_part_gameKey [of a c] by (simp add: dedupedKalshi_pair)
  have 4: "dedupedKalshi f [a, c] = [a, c]"
    if "matchesMarketType f c" "isPlayerProp a" "isPlayerProp c" "sameGame a c"
       "take 30 (mi_name a) \<noteq> take 30 (mi_name c)" for c
    using that fa prop_name_gameKey [of a c] by (simp add: dedupedKalshi_pair)
  from 1 2 3 4 show ?thesis by blast
qed

text \<open>
  The two markets of one game, with inverted prices: whichever comes first survives.
  The market of the rematch differs in the date alone and is kept beside them.
\<close>

theorem kalshi_pair_keeps_first_witness:
  "matchesMarketType Moneyline kalshiLakers \<and> matchesMarketType Moneyline kalshiCeltics \<and>
   sameGame kalshiLakers kalshiCeltics \<and> \<not> isPlayerProp kalshiLakers \<and>
   mi_yes_price kalshiLakers = mi_no_price kalshiCeltics \<and>
   mi_no_price kalshiLakers = mi_yes_price kalshiCeltics \<and>
   kalshiLakers \<noteq> kalshiCeltics \<and>
   dedupedKalshi Moneyline [kalshiLakers, kalshiCeltics] = [kalshiLakers] \<and>
   dedupedKalshi Moneyline [kalshiCeltics, kalshiLakers] = [kalshiCeltics] \<and>
   filter (\<lambda>x. gameKey x = gameKey kalshiLakers \<or> gameKey x = gameKey kalshiCeltics)
     (dedupedKalshi Moneyline [kalshiRematch, kalshiCeltics, kalshiLakers]) = [kalshiCeltics] \<and>
   partsDiffering kalshiLakers kalshiRematch = 1 \<and>
   dedupedKalshi Moneyline [kalshiLakers, kalshiRematch] = [kalshiLakers, kalshiRematch]"
proof -
  have fa: "matchesMarketType Moneyline kalshiLakers"
    and fb: "matchesMarketType Moneyline kalshiCeltics"
    and fc: "matchesMarketType Moneyline kalshiRematch"
    by (simp_all add: matchesMarketType_def item_defs part_defs)
  have s: "sameGame kalshiLakers kalshiCeltics" and s': "sameGame kalshiCeltics kalshiLakers"
    and np: "\<not> isPlayerProp kalshiLakers" and np': "\<not> isPlayerProp kalshiCeltics"
    and npc: "\<not> isPlayerProp kalshiRematch"
    and d: "partsDiffering kalshiLakers kalshiRematch = 1"
    by (simp_all add: item_defs part_defs startsWith_def)
  have pr: "mi_yes_price kalshiLakers = mi_no_price kalshiCeltics \<and>
      mi_no_price kalshiLakers = mi_yes_price kalshiCeltics \<and> kalshiLakers \<noteq> kalshiCeltics"
    by (simp add: item_defs)
  from np have n: "isPlayerProp kalshiLakers \<longrightarrow>
      take 30 (mi_name kalshiLakers) = take 30 (mi_name kalshiCeltics)" by simp
  from np' have n': "isPlayerProp kalshiCeltics \<longrightarrow>
      take 30 (mi_name kalshiCeltics) = take 30 (mi_name kalshiLakers)" by simp
  note ab = kalshi_pair_keeps_first [OF fa fb s n]
  note ba = kalshi_pair_keeps_first [OF fb fa s' n']
  from ab have 1: "dedupedKalshi Moneyline [kalshiLakers, kalshiCeltics] = [kalshiLakers]" by blast
  from ba have 2: "dedupedKalshi Moneyline [kalshiCeltics, kalshiLakers] = [kalshiCeltics]" by blast
  from ab fc np npc d
  have 3: "dedupedKalshi Moneyline [kalshiLakers, kalshiRematch] = [kalshiLakers, kalshiRematch]"
    by blast
  have 4: "filter (\<lambda>x. gameKey x = gameKey kalshiLakers \<or> gameKey x = gameKey kalshiCeltics)
     (dedupedKalshi Moneyline [kalshiRematch, kalshiCeltics, kalshiLakers]) = [kalshiCeltics]"
    by (simp add: item_defs dedup_defs)
  from fa fb s np pr 1 2 3 4 d show ?thesis by simp
qed

subsection \<open>UnifiedMarketsTable: matching\<close>

lemma byGameStep_keys:
  "\<forall>(k, v) \<in> set acc. k = gameKey v \<Longrightarrow> \<forall>(k, v) \<in> set (byGameStep m acc). k = gameKey v"
  by (auto simp: byGameStep_eq)

lemma byGameStep_distinct:
  "distinct (map fst acc) \<Longrightarrow> distinct (map fst (byGameStep m acc))"
  by (auto simp: byGameStep_eq)

lemma fold_byGameStep_inv:
  "distinct (map fst acc) \<Longrightarrow> \<forall>(k, v) \<in> set acc. k = gameKey v \<Longrightarrow>
   distinct (map fst (fold byGameStep ms acc)) \<and>
   (\<forall>(k, v) \<in> set (fold byGameStep ms acc). k = gameKey v)"
proof (induction ms arbitrary: acc)
  case Nil
  then show ?case by simp
next
  case (Cons m ms)
  from Cons.prems have "distinct (map fst (byGameStep m acc))"
    and "\<forall>(k, v) \<in> set (byGameStep m acc). k = gameKey v"
    by (simp_all add: byGameStep_distinct byGameStep_keys)
  then show ?case using Cons.IH by simp
qed

lemma byGame_distinct_keys: "distinct (map gameKey (mapValues (byGame ms)))"
proof -
  have d: "distinct (map fst (byGame ms))"
    and k: "\<forall>(k, v) \<in> set (byGame ms). k = gameKey v"
    using fold_byGameStep_inv [of "[]" ms] by (simp_all add: byGame_def)
  from k have "map fst (byGame ms) = map gameKey (map snd (byGame ms))" by auto
  with d show ?thesis by (simp add: mapValues_def)
qed

lemma byGame_distinct: "distinct (mapValues (byGame ms))"
  using byGame_distinct_keys [of ms] by (simp add: distinct_map)



lemma findMatchingKalshi_unused:
  "findMatchingKalshi dk used key = Some k \<Longrightarrow> mi_id k \<notin> used"
  by (auto simp: findMatchingKalshi_def find_Some_iff)

lemma matchLoop_idsClaimed:
  "idsClaimed st \<Longrightarrow> idsClaimed (matchLoop dk ps st)"
proof (induction dk ps st rule: matchLoop.induct)
  case (1 dk st)
  then show ?case by simp
next
  case (2 dk poly rest rows used)
  let ?mk = "findMatchingKalshi dk used (matchKey poly)"
  have "idsClaimed (rows @ [polyRow poly ?mk], markUsed ?mk used)"
  proof (cases ?mk)
    case None
    with "2.prems" show ?thesis by (auto simp: idsClaimed_def markUsed_def polyRow_def)
  next
    case (Some k)
    then have "mi_id k \<notin> used" by (rule findMatchingKalshi_unused)
    with "2.prems" Some show ?thesis
      by (auto simp: idsClaimed_def markUsed_def polyRow_def kalshiIdOf_def)
  qed
  with "2.IH" show ?case by (simp add: Let_def)
qed

lemma matchLoop_polys:
  "map um_polymarket (fst (matchLoop dk ps st)) = map um_polymarket (fst st) @ map Some ps"
  by (induction dk ps st rule: matchLoop.induct) (simp_all add: Let_def polyRow_def)

lemma remainingLoop_eq:
  "remainingLoop ks (rows, used) = rows @ map kalshiRow (filter (\<lambda>k. mi_id k \<notin> used) ks)"
  by (induction ks arbitrary: rows) simp_all

lemma matchedRows_remainingLoop:
  "matchedRows (remainingLoop ks st) = matchedRows (fst st)"
  by (cases st) (simp add: remainingLoop_eq matchedRows_def kalshiRow_def filter_map comp_def)

lemma mset_insertBy: "mset (insertBy cmp x ys) = add_mset x (mset ys)"
  by (induction ys) auto

lemma mset_sortBy: "mset (sortBy cmp xs) = mset xs"
  by (induction xs) (simp_all add: sortBy_def mset_insertBy)

lemma distinct_map_matchedRows_sortBy:
  "distinct (map g (matchedRows (sortBy cmp xs))) = distinct (map g (matchedRows xs))"
proof -
  have "mset (map g (matchedRows (sortBy cmp xs))) = mset (map g (matchedRows xs))"
    by (simp add: matchedRows_def mset_sortBy)
  then show ?thesis by (rule mset_eq_imp_distinct_iff)
qed

lemma distinct_map_filter_sub:
  "distinct (map f xs) \<Longrightarrow> distinct (map f (filter P xs))"
  by (simp add: distinct_map_filter)

lemma distinct_map_inner: "distinct (map (\<lambda>x. h (g x)) xs) \<Longrightarrow> distinct (map g xs)"
  by (induction xs) auto

text \<open>
  C5. Matching is one-to-one: among the matched pairs the pass returns, no Polymarket
  market and no Kalshi market appears twice; the Kalshi ids of the pairs are pairwise
  different as well.
\<close>

theorem matching_one_to_one:
  "distinct (map um_polymarket (matchedRows (unifiedMarkets localeCompare f polyMarkets kalshiMarkets))) \<and>
   distinct (map um_kalshi (matchedRows (unifiedMarkets localeCompare f polyMarkets kalshiMarkets))) \<and>
   distinct (map kalshiIdOf (matchedRows (unifiedMarkets localeCompare f polyMarkets kalshiMarkets)))"
proof -
  let ?dp = "dedupedPoly f polyMarkets" and ?dk = "dedupedKalshi f kalshiMarkets"
  let ?st = "matchLoop ?dk ?dp ([], {})"
  have um: "unifiedMarkets localeCompare f polyMarkets kalshiMarkets =
      sortBy (compareRows localeCompare) (remainingLoop ?dk ?st)"
    by (simp add: unifiedMarkets_def Let_def)
  have red: "\<And>g. distinct (map g (matchedRows (unifiedMarkets localeCompare f polyMarkets kalshiMarkets))) =
      distinct (map g (matchedRows (fst ?st)))"
    by (simp add: um distinct_map_matchedRows_sortBy matchedRows_remainingLoop)
  have "distinct ?dp" by (simp add: dedupedPoly_def byGame_distinct)
  then have "distinct (map um_polymarket (fst ?st))"
    by (simp add: matchLoop_polys distinct_map)
  then have p: "distinct (map um_polymarket (matchedRows (fst ?st)))"
    unfolding matchedRows_def by (rule distinct_map_filter_sub)
  have "idsClaimed ?st" by (rule matchLoop_idsClaimed) (simp add: idsClaimed_def)
  then have "distinct (map kalshiIdOf (filter (\<lambda>r. um_kalshi r \<noteq> None) (fst ?st)))"
    by (simp add: idsClaimed_def)
  then have "distinct (map kalshiIdOf (filter (\<lambda>r. um_polymarket r \<noteq> None) (filter (\<lambda>r. um_kalshi r \<noteq> None) (fst ?st))))"
    by (rule distinct_map_filter_sub)
  then have i: "distinct (map kalshiIdOf (matchedRows (fst ?st)))"
    by (simp add: matchedRows_def conj_commute)
  have "kalshiIdOf = (\<lambda>r. map_option mi_id (um_kalshi r))"
    by (simp add: fun_eq_iff kalshiIdOf_def)
  with i have "distinct (map (\<lambda>r. map_option mi_id (um_kalshi r)) (matchedRows (fst ?st)))"
    by simp
  then have k: "distinct (map um_kalshi (matchedRows (fst ?st)))"
    by (rule distinct_map_inner)
  from p k i show ?thesis by (simp add: red)
qed

lemma passStep_deterministic:
  "passStep lc kf c c1 \<Longrightarrow> passStep lc kf c c2 \<Longrightarrow> c1 = c2"
  by (auto elim!: passStep.cases)

lemma passStep_Sorted_final: "\<not> passStep lc kf (Sorted rows) c"
  by (auto elim: passStep.cases)

lemma passStep_star_deterministic:
  "(passStep lc kf)\<^sup>*\<^sup>* c (Sorted r1) \<Longrightarrow> (passStep lc kf)\<^sup>*\<^sup>* c (Sorted r2) \<Longrightarrow> r1 = r2"
proof (induction rule: converse_rtranclp_induct)
  case base
  then show ?case by (auto elim: converse_rtranclpE simp: passStep_Sorted_final)
next
  case (step c c')
  from step.prems show ?case
  proof (cases rule: converse_rtranclpE)
    case base
    with step.hyps(1) show ?thesis by (simp add: passStep_Sorted_final)
  next
    case (step c'')
    with \<open>passStep lc kf c c'\<close> have "c'' = c'" by (auto dest: passStep_deterministic)
    with step step.IH show ?thesis by simp
  qed
qed

lemma dedupPoly_runs:
  "(passStep lc kf)\<^sup>*\<^sup>* (DedupPoly ps m) (DedupPoly [] (fold byGameStep ps m))"
proof (induction ps arbitrary: m)
  case Nil
  then show ?case by simp
next
  case (Cons poly rest)
  have "passStep lc kf (DedupPoly (poly # rest) m) (DedupPoly rest (byGameStep poly m))"
    by (cases "mapHas m (gameKey poly)") (auto simp: byGameStep_def intro: passStep.intros)
  then show ?case using Cons [of "byGameStep poly m"]
    by (simp add: converse_rtranclp_into_rtranclp)
qed

lemma dedupKalshi_runs:
  "(passStep lc kf)\<^sup>*\<^sup>* (DedupKalshi dp ks m) (DedupKalshi dp [] (fold byGameStep ks m))"
proof (induction ks arbitrary: m)
  case Nil
  then show ?case by simp
next
  case (Cons kalshi rest)
  have "passStep lc kf (DedupKalshi dp (kalshi # rest) m) (DedupKalshi dp rest (byGameStep kalshi m))"
    by (cases "mapHas m (gameKey kalshi)") (auto simp: byGameStep_def intro: passStep.intros)
  then show ?case using Cons [of "byGameStep kalshi m"]
    by (simp add: converse_rtranclp_into_rtranclp)
qed

lemma matching_runs:
  "(passStep lc kf)\<^sup>*\<^sup>* (Matching dk ps rows used)
     (Matching dk [] (fst (matchLoop dk ps (rows, used))) (snd (matchLoop dk ps (rows, used))))"
proof (induction ps arbitrary: rows used)
  case Nil
  then show ?case by simp
next
  case (Cons poly rest)
  let ?mk = "findMatchingKalshi dk used (matchKey poly)"
  have "passStep lc kf (Matching dk (poly # rest) rows used)
          (Matching dk rest (rows @ [polyRow poly ?mk]) (markUsed ?mk used))"
    by (cases ?mk) (auto simp: markUsed_def intro: passStep.intros)
  then show ?case
    using Cons [of "rows @ [polyRow poly ?mk]" "markUsed ?mk used"]
    by (simp add: Let_def converse_rtranclp_into_rtranclp)
qed

lemma remaining_runs:
  "(passStep lc kf)\<^sup>*\<^sup>* (Remaining ks rows used) (Remaining [] (remainingLoop ks (rows, used)) used)"
proof (induction ks arbitrary: rows)
  case Nil
  then show ?case by simp
next
  case (Cons k ks)
  show ?case
  proof (cases "mi_id k \<in> used")
    case True
    then have "passStep lc kf (Remaining (k # ks) rows used) (Remaining ks rows used)"
      by (rule passStep.remainingSkip)
    with True show ?thesis using Cons [of rows]
      by (simp add: converse_rtranclp_into_rtranclp)
  next
    case False
    then have "passStep lc kf (Remaining (k # ks) rows used) (Remaining ks (rows @ [kalshiRow k]) used)"
      by (rule passStep.remainingPush)
    with False show ?thesis using Cons [of "rows @ [kalshiRow k]"]
      by (simp add: converse_rtranclp_into_rtranclp)
  qed
qed

lemma passRuns_unifiedMarkets:
  "passRuns lc f polyMarkets kalshiMarkets (unifiedMarkets lc f polyMarkets kalshiMarkets)"
proof -
  let ?pf = "filter (matchesMarketType f) polyMarkets"
  let ?kf = "filter (matchesMarketType f) kalshiMarkets"
  let ?dp = "dedupedPoly f polyMarkets" and ?dk = "dedupedKalshi f kalshiMarkets"
  let ?st = "matchLoop ?dk ?dp ([], {})"
  let ?step = "passStep lc ?kf"
  have "?step\<^sup>*\<^sup>* (DedupPoly ?pf []) (DedupPoly [] (byGame ?pf))"
    unfolding byGame_def by (rule dedupPoly_runs)
  also have "?step (DedupPoly [] (byGame ?pf)) (DedupKalshi ?dp ?kf [])"
    unfolding dedupedPoly_def by (rule passStep.polyDone)
  also have "?step\<^sup>*\<^sup>* (DedupKalshi ?dp ?kf []) (DedupKalshi ?dp [] (byGame ?kf))"
    unfolding byGame_def by (rule dedupKalshi_runs)
  also have "?step (DedupKalshi ?dp [] (byGame ?kf)) (Matching ?dk ?dp [] {})"
    unfolding dedupedKalshi_def by (rule passStep.kalshiDone)
  also have "?step\<^sup>*\<^sup>* (Matching ?dk ?dp [] {}) (Matching ?dk [] (fst ?st) (snd ?st))"
    by (rule matching_runs)
  also have "?step (Matching ?dk [] (fst ?st) (snd ?st)) (Remaining ?dk (fst ?st) (snd ?st))"
    by (rule passStep.matchDone)
  also have "?step\<^sup>*\<^sup>* (Remaining ?dk (fst ?st) (snd ?st))
       (Remaining [] (remainingLoop ?dk ?st) (snd ?st))"
    using remaining_runs [of lc ?kf ?dk "fst ?st" "snd ?st"] by simp
  also have "?step (Remaining [] (remainingLoop ?dk ?st) (snd ?st))
       (Sorted (sortBy (compareRows lc) (remainingLoop ?dk ?st)))"
    by (rule passStep.remainingDone)
  finally show ?thesis by (simp add: passRuns_def unifiedMarkets_def Let_def)
qed

text \<open>
  C8. Matching is deterministic: the pass, run on two catalogs, ends, and any two runs on
  the same catalogs, in the same order, end in the same rows, so in the same matched
  pairs in the same order. The pass pairs markets by equality of keys and computes no
  score.
\<close>

theorem matching_deterministic:
  "(\<exists>rows. passRuns lc f polyMarkets kalshiMarkets rows) \<and>
   (\<forall>rows1 rows2. passRuns lc f polyMarkets kalshiMarkets rows1 \<longrightarrow>
      passRuns lc f polyMarkets kalshiMarkets rows2 \<longrightarrow> rows1 = rows2)"
  using passRuns_unifiedMarkets [of lc f polyMarkets kalshiMarkets]
  by (auto simp: passRuns_def dest: passStep_star_deterministic)

text \<open>
  One Polymarket market and the two Kalshi markets of its game give one matched row,
  whatever \<^verbatim>\<open>localeCompare\<close> is.
\<close>

lemma unifiedMarkets_example:
  "unifiedMarkets lc Moneyline [polyLakers] [kalshiLakers, kalshiCeltics] =
     [polyRow polyLakers (Some kalshiLakers)]"
  by (simp add: unifiedMarkets_def dedup_defs item_defs findMatchingKalshi_def matchKey_def
      markUsed_def sortBy_def Let_def)

theorem matching_deterministic_witness:
  "\<forall>lc. passRuns lc Moneyline [polyLakers] [kalshiLakers, kalshiCeltics]
           [polyRow polyLakers (Some kalshiLakers)] \<and>
        unifiedMarkets lc Moneyline [polyLakers] [kalshiLakers, kalshiCeltics] =
           [polyRow polyLakers (Some kalshiLakers)]"
proof
  fix lc
  have r: "passRuns lc Moneyline [polyLakers] [kalshiLakers, kalshiCeltics]
     (unifiedMarkets lc Moneyline [polyLakers] [kalshiLakers, kalshiCeltics])"
    by (rule passRuns_unifiedMarkets)
  from matching_deterministic [of lc Moneyline "[polyLakers]" "[kalshiLakers, kalshiCeltics]"]
  obtain rows where rows: "passRuns lc Moneyline [polyLakers] [kalshiLakers, kalshiCeltics] rows"
    and "\<forall>rows'. passRuns lc Moneyline [polyLakers] [kalshiLakers, kalshiCeltics] rows' \<longrightarrow> rows' = rows"
    by blast
  with r have "rows = unifiedMarkets lc Moneyline [polyLakers] [kalshiLakers, kalshiCeltics]"
    by blast
  with rows show "passRuns lc Moneyline [polyLakers] [kalshiLakers, kalshiCeltics]
           [polyRow polyLakers (Some kalshiLakers)] \<and>
        unifiedMarkets lc Moneyline [polyLakers] [kalshiLakers, kalshiCeltics] =
           [polyRow polyLakers (Some kalshiLakers)]"
    by (simp add: unifiedMarkets_example)
qed

subsection \<open>Dashboard: the search filter\<close>

lemma startsWith_iff: "startsWith s q \<longleftrightarrow> (\<exists>ss. s = q @ ss)"
proof
  assume "startsWith s q"
  then have "s = q @ drop (length q) s"
    by (metis append_take_drop_id startsWith_def)
  then show "\<exists>ss. s = q @ ss" ..
next
  assume "\<exists>ss. s = q @ ss"
  then show "startsWith s q" by (auto simp: startsWith_def)
qed

lemma jsIncludes_iff: "jsIncludes s q \<longleftrightarrow> occursIn q s"
proof (induction s)
  case Nil
  then show ?case by (simp add: occursIn_def)
next
  case (Cons c cs)
  have "occursIn q (c # cs) \<longleftrightarrow> (\<exists>ss. c # cs = q @ ss) \<or> occursIn q cs"
    unfolding occursIn_def by (auto simp: Cons_eq_append_conv)
  with Cons show ?case by (simp add: startsWith_iff)
qed





lemma optIncludes_iff:
  "optIncludes lower x (lower q) \<longleftrightarrow> (\<exists>s. x = Some s \<and> ciOccurs lower q s)"
  by (cases x) (simp_all add: optIncludes_def ciOccurs_def jsIncludes_iff)

text \<open>
  C9 (amended). The search filter retains an opportunity if and only if the query,
  compared without regard to case, occurs in one of its two titles, in its Kalshi market
  id, in its league or in its team; an empty query retains every opportunity.
\<close>

theorem search_filter_iff:
  "(opp \<in> set (filteredOpportunities lower (Some d) q) \<longleftrightarrow>
      opp \<in> set (ar_opportunities d) \<and>
      (q = [] \<or>
       ciOccurs lower q (op_question (ao_polymarket opp)) \<or>
       ciOccurs lower q (ok_question (ao_kalshi opp)) \<or>
       ciOccurs lower q (ok_id (ao_kalshi opp)) \<or>
       (\<exists>league. ao_league opp = Some league \<and> ciOccurs lower q league) \<or>
       (\<exists>team. ao_team opp = Some team \<and> ciOccurs lower q team))) \<and>
   filteredOpportunities lower (Some d) [] = ar_opportunities d"
  by (auto simp: filteredOpportunities_def searchKeeps_def Let_def optIncludes_iff
      ciOccurs_def jsIncludes_iff)

lemmas opp_defs = mkOpp_def lakersOpp_def bullsOpp_def mkResponse_def

text \<open>
  C9 as stated fails: the query \<open>kx\<close> occurs in neither title, not in the league and
  there is no team, yet the opportunity is retained, through its Kalshi market id.
\<close>

theorem search_matches_kalshi_id_counterexample:
  "\<not> ciOccurs asciiLower ''kx'' (op_question (ao_polymarket lakersOpp)) \<and>
   \<not> ciOccurs asciiLower ''kx'' (ok_question (ao_kalshi lakersOpp)) \<and>
   ao_league lakersOpp = Some ''NBA'' \<and> \<not> ciOccurs asciiLower ''kx'' ''NBA'' \<and>
   ao_team lakersOpp = None \<and>
   filteredOpportunities asciiLower (Some (mkResponse [lakersOpp, bullsOpp])) ''kx'' = [lakersOpp]"
  by (simp add: ciOccurs_def jsIncludes_iff [symmetric] filteredOpportunities_def searchKeeps_def
      optIncludes_def Let_def opp_defs asciiLower_def lowerChar_def startsWith_def)

end
